theory Spec2Isabelle
  imports Complex_Main
begin

section \<open>Blast-wave field synthesis and playback\<close>

text \<open>
  The development embeds the numerical core of the real-time simulation viewer
  (\<^verbatim>\<open>generateFrameData\<close>, \<^verbatim>\<open>runAnimation\<close>, \<^verbatim>\<open>handleStop\<close>, \<^verbatim>\<open>handleFrameSeek\<close> and the
  scaling arithmetic of \<^verbatim>\<open>renderBlastWave\<close>) and the blast-radius helper of the map
  component (\<^verbatim>\<open>calculateBlastRadius\<close>).

  JavaScript numbers are modelled as mathematical reals: arithmetic is exact, and
  \<^verbatim>\<open>Math.exp\<close>, \<^verbatim>\<open>Math.sin\<close>, \<^verbatim>\<open>Math.sqrt\<close> are \<open>exp\<close>, \<open>sin\<close>, \<open>sqrt\<close>. Frame indices are
  integers. The one place where the code can produce \<^verbatim>\<open>NaN\<close> from real inputs
  (\<^verbatim>\<open>Math.pow\<close> of a negative base, \<^verbatim>\<open>%\<close> by zero) returns \<open>None\<close>.
  The operator \<^verbatim>\<open>a || b\<close> on numbers yields \<^verbatim>\<open>b\<close> exactly when \<^verbatim>\<open>a\<close> is \<^verbatim>\<open>0\<close>
  (or \<^verbatim>\<open>NaN\<close>), and on an array element it yields \<^verbatim>\<open>b\<close> exactly when the index is
  outside the array.
\<close>

subsection \<open>Data\<close>

text \<open>An element of the \<^verbatim>\<open>frames\<close> property.\<close>

record frame_sample =
  time :: real
  pressure :: real
  velocity :: real
  temperature :: real

text \<open>
  The interface \<^verbatim>\<open>SimulationFrame\<close>. A velocity vector \<^verbatim>\<open>{x, y}\<close> is the pair \<open>(x, y)\<close>.
\<close>

record SimulationFrame =
  frame :: int
  time :: real
  pressureField :: "real list list"
  velocityField :: "(real \<times> real) list list"
  maxPressure :: real
  maxVelocity :: real

subsection \<open>\<^verbatim>\<open>generateFrameData\<close>\<close>

text \<open>
  \<^verbatim>\<open>frames[frameIndex] || { time: frameIndex * 0.1, pressure: 0, velocity: 0, temperature: 300 }\<close>:
  an object is truthy, so the supplied sample is taken whenever the index is inside the
  array, and the default object otherwise.
\<close>

definition frameOrDefault :: "frame_sample list \<Rightarrow> int \<Rightarrow> frame_sample" where
  "frameOrDefault frames frameIndex =
     (if 0 \<le> frameIndex \<and> frameIndex < int (length frames)
      then frames ! nat frameIndex
      else \<lparr>frame_sample.time = real_of_int frameIndex * 0.1, pressure = 0,
             velocity = 0, temperature = 300\<rparr>)"

text \<open>\<^verbatim>\<open>const t = frame.time || frameIndex * 0.1\<close>\<close>

definition frameTime :: "frame_sample \<Rightarrow> int \<Rightarrow> real" where
  "frameTime fr frameIndex =
     (if frame_sample.time fr \<noteq> 0 then frame_sample.time fr
      else real_of_int frameIndex * 0.1)"

text \<open>
  The right operands of the two \<^verbatim>\<open>||\<close> of lines 71 and 72: the analytic waveform, which
  the specification calls \<^verbatim>\<open>peak_pressure_bar\<close> and \<^verbatim>\<open>peak_velocity_ms\<close>.
\<close>

definition analyticPressure :: "real \<Rightarrow> real" where
  "analyticPressure t = 15.0 * exp (- t * 0.8) * max 0 (1 - t * 0.3)"

definition analyticVelocity :: "real \<Rightarrow> real" where
  "analyticVelocity t = 350.0 * exp (- t * 0.5) * max 0 (sin (t * 1.5))"

text \<open>\<^verbatim>\<open>const maxPressure = frame.pressure * 15 || 15.0 * Math.exp(-t * 0.8) * Math.max(0, 1 - t * 0.3)\<close>\<close>

definition maxPressureOf :: "frame_sample \<Rightarrow> real \<Rightarrow> real" where
  "maxPressureOf fr t =
     (if pressure fr * 15 \<noteq> 0 then pressure fr * 15 else analyticPressure t)"

text \<open>\<^verbatim>\<open>const maxVelocity = frame.velocity * 350 || 350.0 * Math.exp(-t * 0.5) * Math.max(0, Math.sin(t * 1.5))\<close>\<close>

definition maxVelocityOf :: "frame_sample \<Rightarrow> real \<Rightarrow> real" where
  "maxVelocityOf fr t =
     (if velocity fr * 350 \<noteq> 0 then velocity fr * 350 else analyticVelocity t)"

text \<open>The body of the inner loop of the pressure field, for the cell \<open>(i, j)\<close>.\<close>

definition pressureCell :: "real \<Rightarrow> real \<Rightarrow> real \<Rightarrow> real \<Rightarrow> real" where
  "pressureCell maxP t i j =
     (let centerX = 25; centerY = 25;
          distance = sqrt ((i - centerX)\<^sup>2 + (j - centerY)\<^sup>2);
          waveRadius = t * 8;
          pressure =
            (if distance \<le> waveRadius \<and> waveRadius > 0
             then (let normalizedDistance = distance / waveRadius;
                       timeAtDistance = normalizedDistance * t;
                       tStarLocal = timeAtDistance / 2
                   in if tStarLocal > 0
                      then maxP * exp (- tStarLocal) * (1 - tStarLocal) else 0)
             else 0)
      in max 0 pressure)"

text \<open>The two nested loops, \<open>i\<close> and \<open>j\<close> from 0 to 49.\<close>

definition pressureFieldOf :: "real \<Rightarrow> real \<Rightarrow> real list list" where
  "pressureFieldOf maxP t =
     map (\<lambda>i. map (\<lambda>j. pressureCell maxP t (real i) (real j)) [0..<50]) [0..<50]"

text \<open>The body of the inner loop of the velocity field, for the cell \<open>(i, j)\<close>.\<close>

definition velocityCell :: "real \<Rightarrow> real \<Rightarrow> real \<Rightarrow> real \<Rightarrow> real \<times> real" where
  "velocityCell maxV t i j =
     (let centerX = 12.5; centerY = 12.5;
          dx = i - centerX;
          dy = j - centerY;
          distance = sqrt (dx\<^sup>2 + dy\<^sup>2)
      in if distance > 0
         then (let waveRadius = t * 8;
                   magnitude =
                     (if \<bar>distance - waveRadius\<bar> < 3
                      then maxV * (1 - \<bar>distance - waveRadius\<bar> / 3) else 0)
               in ((magnitude * dx) / distance, (magnitude * dy) / distance))
         else (0, 0))"

definition velocityFieldOf :: "real \<Rightarrow> real \<Rightarrow> (real \<times> real) list list" where
  "velocityFieldOf maxV t =
     map (\<lambda>i. map (\<lambda>j. velocityCell maxV t (real i) (real j)) [0..<25]) [0..<25]"

definition generateFrameData :: "frame_sample list \<Rightarrow> int \<Rightarrow> SimulationFrame" where
  "generateFrameData frames frameIndex =
     (let fr = frameOrDefault frames frameIndex;
          t = frameTime fr frameIndex;
          maxP = maxPressureOf fr t;
          maxV = maxVelocityOf fr t
      in \<lparr>frame = frameIndex, time = t,
          pressureField = pressureFieldOf maxP t,
          velocityField = velocityFieldOf maxV t,
          maxPressure = maxP, maxVelocity = maxV\<rparr>)"

subsection \<open>Playback\<close>

text \<open>
  The component state that playback reads and writes (\<^verbatim>\<open>useState\<close> cells). The canvas
  drawing of \<^verbatim>\<open>renderFrame\<close> does not change it and is left out.
\<close>

record playback =
  isPlaying :: bool
  currentFrame :: int
  totalFrames :: int
  simulationData :: "SimulationFrame option"
  playbackSpeed :: real

text \<open>The initial values of the \<^verbatim>\<open>useState\<close> cells.\<close>

definition initialPlayback :: "frame_sample list \<Rightarrow> playback" where
  "initialPlayback frames =
     \<lparr>isPlaying = False, currentFrame = 0,
      totalFrames = max (int (length frames)) 250,
      simulationData = None, playbackSpeed = 1\<rparr>"

text \<open>
  The remainder operator \<^verbatim>\<open>%\<close> on integer-valued numbers: the result has the sign of
  the dividend, and a zero divisor gives \<^verbatim>\<open>NaN\<close> (\<open>None\<close>).
\<close>

definition jsRem :: "int \<Rightarrow> int \<Rightarrow> int option" where
  "jsRem a b = (if b = 0 then None else Some (sgn a * (\<bar>a\<bar> mod \<bar>b\<bar>)))"

text \<open>
  One run of \<^verbatim>\<open>runAnimation\<close>, up to the point where it re-arms its timer. The result
  \<open>None\<close> stands for a frame index that is \<^verbatim>\<open>NaN\<close>.
\<close>

definition runAnimation :: "frame_sample list \<Rightarrow> playback \<Rightarrow> playback option" where
  "runAnimation frames st =
     (if \<not> isPlaying st then Some st
      else (case jsRem (currentFrame st + 1) (totalFrames st) of
              None \<Rightarrow> None
            | Some nextFrame \<Rightarrow>
                Some (st\<lparr>currentFrame := nextFrame,
                         simulationData := Some (generateFrameData frames nextFrame)\<rparr>)))"

definition handlePlayPause :: "playback \<Rightarrow> playback" where
  "handlePlayPause st = st\<lparr>isPlaying := \<not> isPlaying st\<rparr>"

definition handleStop :: "frame_sample list \<Rightarrow> playback \<Rightarrow> playback" where
  "handleStop frames st =
     st\<lparr>isPlaying := False, currentFrame := 0,
        simulationData := Some (generateFrameData frames 0)\<rparr>"

definition handleFrameSeek :: "frame_sample list \<Rightarrow> playback \<Rightarrow> int \<Rightarrow> playback" where
  "handleFrameSeek frames st frameIndex =
     st\<lparr>currentFrame := frameIndex,
        simulationData := Some (generateFrameData frames frameIndex)\<rparr>"

text \<open>
  The click handlers of the two skip buttons:
  \<^verbatim>\<open>handleFrameSeek(Math.max(0, currentFrame - 10))\<close> and
  \<^verbatim>\<open>handleFrameSeek(Math.min(totalFrames - 1, currentFrame + 10))\<close>.
\<close>

definition skipBack :: "frame_sample list \<Rightarrow> playback \<Rightarrow> playback" where
  "skipBack frames st = handleFrameSeek frames st (max 0 (currentFrame st - 10))"

definition skipForward :: "frame_sample list \<Rightarrow> playback \<Rightarrow> playback" where
  "skipForward frames st =
     handleFrameSeek frames st (min (totalFrames st - 1) (currentFrame st + 10))"

subsection \<open>Scaling law\<close>

text \<open>
  \<^verbatim>\<open>Math.pow(x, 1 / 3)\<close>: \<^verbatim>\<open>NaN\<close> (\<open>None\<close>) for a negative base, the cube root otherwise
  (\<open>0 powr a = 0\<close> in HOL, as \<^verbatim>\<open>Math.pow(0, 1 / 3)\<close> is \<^verbatim>\<open>0\<close>).
\<close>

definition powOneThird :: "real \<Rightarrow> real option" where
  "powOneThird x = (if x < 0 then None else Some (x powr (1 / 3)))"

text \<open>
  \<^verbatim>\<open>calculateBlastRadius\<close> of the map component; \<open>tntEquivalentOf\<close> is its local constant
  \<^verbatim>\<open>tntEquivalent = type === "TNT" ? mass : mass * 1.34\<close>.
\<close>

definition tntEquivalentOf :: "real \<Rightarrow> string \<Rightarrow> real" where
  "tntEquivalentOf mass type = (if type = ''TNT'' then mass else mass * 1.34)"

definition calculateBlastRadius :: "real \<Rightarrow> string \<Rightarrow> real option" where
  "calculateBlastRadius mass type =
     map_option (\<lambda>p. p * 100) (powOneThird (tntEquivalentOf mass type / 1000))"



section \<open>Properties\<close>

subsection \<open>Auxiliary facts\<close>

lemma pressureCell_nonneg: "0 \<le> pressureCell maxP t i j"
  by (simp add: pressureCell_def Let_def)

lemma pressureFieldOf_nth:
  "i < 50 \<Longrightarrow> j < 50 \<Longrightarrow> pressureFieldOf maxP t ! i ! j = pressureCell maxP t (real i) (real j)"
  by (simp add: pressureFieldOf_def)

lemma pressureCell_center: "pressureCell maxP t 25 25 = 0"
  by (simp add: pressureCell_def Let_def)

lemma generateFrameData_pressure_nth:
  "i < 50 \<Longrightarrow> j < 50 \<Longrightarrow>
   pressureField (generateFrameData frames frameIndex) ! i ! j =
     pressureCell (maxPressure (generateFrameData frames frameIndex))
       (SimulationFrame.time (generateFrameData frames frameIndex)) (real i) (real j)"
  by (simp add: generateFrameData_def Let_def pressureFieldOf_nth)

lemma pressureCell_time_zero: "pressureCell maxP 0 i j = 0"
  by (simp add: pressureCell_def Let_def)

lemma velocityCell_still: "velocityCell 0 t i j = (0, 0)"
  by (simp add: velocityCell_def Let_def)

lemma analyticPressure_zero: "analyticPressure 0 = 15"
  by (simp add: analyticPressure_def)

lemma analyticVelocity_zero: "analyticVelocity 0 = 0"
  by (simp add: analyticVelocity_def)

lemma analyticPressure_nonneg: "0 \<le> analyticPressure t"
  by (simp add: analyticPressure_def)

lemma analyticVelocity_nonneg: "0 \<le> analyticVelocity t"
  by (simp add: analyticVelocity_def)

lemma frameOrDefault_nonneg:
  assumes "\<forall>s \<in> set frames. 0 \<le> pressure s \<and> 0 \<le> velocity s"
  shows "0 \<le> pressure (frameOrDefault frames k) \<and> 0 \<le> velocity (frameOrDefault frames k)"
proof (cases "0 \<le> k \<and> k < int (length frames)")
  case True
  then have "nat k < length frames" by linarith
  then have "frames ! nat k \<in> set frames" by (rule nth_mem)
  with assms True show ?thesis by (simp add: frameOrDefault_def)
next
  case False
  then show ?thesis by (auto simp add: frameOrDefault_def)
qed

lemma maxPressureOf_nonneg: "0 \<le> pressure fr \<Longrightarrow> 0 \<le> maxPressureOf fr t"
  by (simp add: maxPressureOf_def analyticPressure_nonneg)

lemma maxVelocityOf_nonneg: "0 \<le> velocity fr \<Longrightarrow> 0 \<le> maxVelocityOf fr t"
  by (simp add: maxVelocityOf_def analyticVelocity_nonneg)

lemma jsRem_nonneg: "0 \<le> a \<Longrightarrow> 0 < b \<Longrightarrow> jsRem a b = Some (a mod b)"
  by (cases "a = 0") (simp_all add: jsRem_def)

lemma power_double_lower:
  fixes x l l' :: real
  assumes "l \<le> x ^ n" and "0 \<le> l" and "l' \<le> l * l"
  shows "l' \<le> x ^ (2 * n)"
proof -
  have "l * l \<le> x ^ n * x ^ n"
    using assms(1,2) by (intro mult_mono) simp_all
  also have "x ^ n * x ^ n = x ^ (2 * n)"
    by (simp add: power_add mult_2)
  finally show ?thesis using assms(3) by linarith
qed

lemma exp_minus_four_fifths_lower: "(448766417 / 1000000000 :: real) \<le> exp (- (4 / 5))"
proof -
  let ?x = "319 / 320 :: real"
  have s0: "?x \<le> ?x ^ 1" by simp
  have s1: "993759765 / 1000000000 \<le> ?x ^ (2 * 1)"
    by (rule power_double_lower [OF s0]) simp_all
  have s2: "987558470 / 1000000000 \<le> ?x ^ (2 * (2 * 1))"
    by (rule power_double_lower [OF s1]) simp_all
  have s3: "975271731 / 1000000000 \<le> ?x ^ (2 * (2 * (2 * 1)))"
    by (rule power_double_lower [OF s2]) simp_all
  have s4: "951154949 / 1000000000 \<le> ?x ^ (2 * (2 * (2 * (2 * 1))))"
    by (rule power_double_lower [OF s3]) simp_all
  have s5: "904695737 / 1000000000 \<le> ?x ^ (2 * (2 * (2 * (2 * (2 * 1)))))"
    by (rule power_double_lower [OF s4]) simp_all
  have s6: "818474376 / 1000000000 \<le> ?x ^ (2 * (2 * (2 * (2 * (2 * (2 * 1))))))"
    by (rule power_double_lower [OF s5]) simp_all
  have s7: "669900304 / 1000000000 \<le> ?x ^ (2 * (2 * (2 * (2 * (2 * (2 * (2 * 1)))))))"
    by (rule power_double_lower [OF s6]) simp_all
  have s8: "448766417 / 1000000000 \<le> ?x ^ (2 * (2 * (2 * (2 * (2 * (2 * (2 * (2 * 1))))))))"
    by (rule power_double_lower [OF s7]) simp_all
  have n: "2 * (2 * (2 * (2 * (2 * (2 * (2 * (2 * 1))))))) = (256::nat)" by simp
  have "(1 - (4 / 5) / real 256) ^ 256 \<le> exp (- (4 / 5 :: real))"
    by (rule exp_ge_one_minus_x_over_n_power_n) simp_all
  moreover have "1 - (4 / 5) / real 256 = ?x" by simp
  ultimately have "?x ^ 256 \<le> exp (- (4 / 5 :: real))" by (simp only:)
  with s8 show ?thesis unfolding n by (rule order_trans)
qed

lemma exp_minus_four_fifths_upper: "exp (- (4 / 5)) \<le> (1000000000 / 2225358885 :: real)"
proof -
  let ?x = "3281 / 3200 :: real"
  have s0: "?x \<le> ?x ^ 1" by simp
  have s1: "1051265722 / 1000000000 \<le> ?x ^ (2 * 1)"
    by (rule power_double_lower [OF s0]) simp_all
  have s2: "1105159618 / 1000000000 \<le> ?x ^ (2 * (2 * 1))"
    by (rule power_double_lower [OF s1]) simp_all
  have s3: "1221377781 / 1000000000 \<le> ?x ^ (2 * (2 * (2 * 1)))"
    by (rule power_double_lower [OF s2]) simp_all
  have s4: "1491763683 / 1000000000 \<le> ?x ^ (2 * (2 * (2 * (2 * 1))))"
    by (rule power_double_lower [OF s3]) simp_all
  have s5: "2225358885 / 1000000000 \<le> ?x ^ (2 * (2 * (2 * (2 * (2 * 1)))))"
    by (rule power_double_lower [OF s4]) simp_all
  have n: "2 * (2 * (2 * (2 * (2 * 1)))) = (32::nat)" by simp
  have "1 + (1 / 40) + (1 / 40)\<^sup>2 / 2 \<le> exp (1 / 40 :: real)"
    by (rule exp_lower_Taylor_quadratic) simp
  then have "?x \<le> exp (1 / 40)" by (simp add: power2_eq_square)
  then have "?x ^ 32 \<le> exp (1 / 40) ^ 32"
    by (intro power_mono) simp_all
  also have "exp (1 / 40 :: real) ^ 32 = exp (of_nat 32 * (1 / 40))"
    by (rule exp_of_nat_mult [symmetric])
  also have "of_nat 32 * (1 / 40) = (4 / 5 :: real)" by simp
  finally have "?x ^ 32 \<le> exp (4 / 5)" .
  with s5 have "2225358885 / 1000000000 \<le> exp (4 / 5 :: real)"
    unfolding n by (rule order_trans)
  then have "inverse (exp (4 / 5 :: real)) \<le> inverse (2225358885 / 1000000000)"
    by (intro le_imp_inverse_le) simp_all
  then show ?thesis by (simp add: exp_minus)
qed

lemma frame_ten: "frameOrDefault [] 10 =
    \<lparr>frame_sample.time = 1, pressure = 0, velocity = 0, temperature = 300\<rparr>"
  by (simp add: frameOrDefault_def)

lemma generateFrameData_ten:
  "SimulationFrame.time (generateFrameData [] 10) = 1 \<and>
   maxPressure (generateFrameData [] 10) = 15.0 * exp (- 0.8) * 0.7"
  by (simp add: generateFrameData_def Let_def frame_ten frameTime_def maxPressureOf_def
      analyticPressure_def)

lemma pressureCell_beyond_front:
  "t * 8 < sqrt ((i - 25)\<^sup>2 + (j - 25)\<^sup>2) \<Longrightarrow> pressureCell maxP t i j = 0"
  by (simp add: pressureCell_def Let_def)

lemma pi_ge_three: "3 \<le> pi"
proof -
  have "sin (pi / 6) \<le> pi / 6" by (rule sin_x_le_x) simp
  then show ?thesis by (simp add: sin_30)
qed

lemma sin_nine_halves_neg: "sin (9 / 2 :: real) < 0"
proof (rule sin_lt_zero)
  show "pi < (9 / 2 :: real)" using pi_less_4 by linarith
  show "(9 / 2 :: real) < 2 * pi" using pi_ge_three by linarith
qed

lemma sin_three_halves_pos: "0 < sin (3 / 2 :: real)"
proof (rule sin_gt_zero)
  show "0 < (3 / 2 :: real)" by simp
  show "(3 / 2 :: real) < pi" using pi_ge_two by linarith
qed

lemma analyticPressure_negative_time:
  "t < 0 \<Longrightarrow> analyticPressure t = 15 * exp (- t * 0.8) * (1 - t * 0.3)"
  by (simp add: analyticPressure_def max_def)

lemma analyticPressure_gt_15:
  assumes "t < 0" shows "15 < analyticPressure t"
proof -
  have e: "1 < exp (- t * 0.8)" using assms by simp
  have f: "1 < 1 - t * 0.3" using assms by simp
  have "1 * 1 < exp (- t * 0.8) * (1 - t * 0.3)"
    using e f by (intro mult_strict_mono) simp_all
  then show ?thesis
    using assms by (simp add: analyticPressure_negative_time)
qed

lemma analyticVelocity_pos_iff: "(0 < analyticVelocity t) = (0 < sin (t * 1.5))"
  by (simp add: analyticVelocity_def zero_less_mult_iff max_def)

lemma override_when_nonzero:
  assumes "0 \<le> k" and "k < int (length frames)"
  shows "pressure (frames ! nat k) \<noteq> 0 \<Longrightarrow>
           maxPressure (generateFrameData frames k) = pressure (frames ! nat k) * 15"
    and "velocity (frames ! nat k) \<noteq> 0 \<Longrightarrow>
           maxVelocity (generateFrameData frames k) = velocity (frames ! nat k) * 350"
  using assms
  by (simp_all add: generateFrameData_def Let_def frameOrDefault_def maxPressureOf_def
      maxVelocityOf_def)

lemma tntEquivalentOf_TNT: "tntEquivalentOf mass ''TNT'' = mass"
  by (simp add: tntEquivalentOf_def)

lemma tntEquivalentOf_C4: "tntEquivalentOf mass ''C4'' = 1.34 * mass"
  by (simp add: tntEquivalentOf_def)

lemma scaled_distance_reference: "powOneThird (1000 / 1000) = Some 1"
  by (simp add: powOneThird_def)

lemma calculateBlastRadius_formula:
  "0 \<le> tntEquivalentOf mass type \<Longrightarrow>
   calculateBlastRadius mass type = Some (100 * (tntEquivalentOf mass type / 1000) powr (1 / 3))"
  by (simp add: calculateBlastRadius_def powOneThird_def)

lemma pressureCell_at_one:
  assumes "d = sqrt ((i - 25)\<^sup>2 + (j - 25)\<^sup>2)" and "0 < maxP"
  shows "pressureCell maxP 1 i j =
           (if 0 < d \<and> d \<le> 8 then maxP * exp (- (d / 16)) * (1 - d / 16) else 0)"
proof (cases "0 < d \<and> d \<le> 8")
  case True
  then have "0 < 1 - d / 16" by simp
  with assms(2) have "0 < maxP * exp (- (d / 16)) * (1 - d / 16)" by simp
  with True show ?thesis
    using assms(1) by (simp add: pressureCell_def Let_def max_def)
next
  case False
  then show ?thesis
    using assms(1) by (auto simp add: pressureCell_def Let_def)
qed

lemma inside_front_positive:
  fixes d maxP :: real
  assumes "0 < d" and "d \<le> 8" and "0 < maxP"
  shows "0 < maxP * exp (- (d / 16)) * (1 - d / 16)"
proof -
  from assms(2) have "0 < 1 - d / 16" by simp
  with assms(3) show ?thesis by simp
qed

lemma sqrt_64: "sqrt 64 = (8::real)"
  by (rule real_sqrt_unique) simp_all

subsection \<open>The frame at time zero\<close>

text \<open>
  Claim C4. For frame index 0 with no supplied frame data the time is 0, and the
  generated frame has a 50 by 50 pressure field whose every cell is 0, a 25 by 25
  velocity field whose every vector is \<open>(0, 0)\<close>, and a \<open>maxPressure\<close> equal to the
  analytic peak pressure at time 0, which is 15.
\<close>

theorem zero_time_frame:
  "generateFrameData [] 0 =
     \<lparr>frame = 0, time = 0,
      pressureField = replicate 50 (replicate 50 0),
      velocityField = replicate 25 (replicate 25 (0, 0)),
      maxPressure = analyticPressure 0, maxVelocity = 0\<rparr>
   \<and> analyticPressure 0 = 15"
  by (simp add: generateFrameData_def Let_def frameOrDefault_def frameTime_def
      maxPressureOf_def maxVelocityOf_def pressureFieldOf_def velocityFieldOf_def
      pressureCell_time_zero velocityCell_still analyticPressure_zero analyticVelocity_zero
      map_replicate_const)

subsection \<open>The epicentre cell\<close>

text \<open>
  Claim C10. For every time and every \<open>maxPressure\<close> the pressure computed for the grid
  centre, cell \<open>(25, 25)\<close> at distance 0, is 0: inside the wave the normalised
  time-at-distance is 0 there and the guarded branch yields 0, and outside the wave the
  cell is 0 anyway. So the centre cell of every generated frame holds 0.
\<close>

theorem epicenter_pressure_zero:
  "pressureCell maxP t 25 25 = 0 \<and>
   pressureField (generateFrameData frames frameIndex) ! 25 ! 25 = 0"
  by (simp add: generateFrameData_pressure_nth pressureCell_center)

subsection \<open>The frame at one second\<close>

text \<open>
  Claim C5. With no external frame data the frame at time 1.0 is frame 10. Its
  \<open>maxPressure\<close> is \<open>15.0 * exp (- 0.8) * 0.7\<close>, which lies between 4.71 and 4.72, and
  the wave front of its pressure field lies at radius 8, eight times the frame's time:
  for every cell of the 50 by 50 grid, at Euclidean distance \<open>d\<close> from the centre
  \<open>(25, 25)\<close>, the cell holds exactly 0 when \<open>d\<close> exceeds 8 and at the centre itself, and
  holds the positive value \<open>maxPressure * exp (- d / 16) * (1 - d / 16)\<close> when
  \<open>0 < d \<le> 8\<close>. So the cells with a nonzero pressure are exactly those within 8 units
  of the centre, the centre apart.
\<close>

theorem frame_at_one_second:
  assumes "i < 50" and "j < 50" and "d = sqrt ((real i - 25)\<^sup>2 + (real j - 25)\<^sup>2)"
  shows "SimulationFrame.time (generateFrameData [] 10) = 1 \<and>
         SimulationFrame.time (generateFrameData [] 10) * 8 = 8 \<and>
         maxPressure (generateFrameData [] 10) = 15.0 * exp (- 0.8) * 0.7 \<and>
         4.71 < maxPressure (generateFrameData [] 10) \<and>
         maxPressure (generateFrameData [] 10) < 4.72 \<and>
         (8 < d \<longrightarrow> pressureField (generateFrameData [] 10) ! i ! j = 0) \<and>
         (d = 0 \<longrightarrow> pressureField (generateFrameData [] 10) ! i ! j = 0) \<and>
         (0 < d \<and> d \<le> 8 \<longrightarrow>
            pressureField (generateFrameData [] 10) ! i ! j =
              maxPressure (generateFrameData [] 10) * exp (- (d / 16)) * (1 - d / 16) \<and>
            0 < pressureField (generateFrameData [] 10) ! i ! j) \<and>
         (pressureField (generateFrameData [] 10) ! i ! j \<noteq> 0) = (0 < d \<and> d \<le> 8)"
proof -
  let ?f = "generateFrameData [] 10"
  have t: "SimulationFrame.time ?f = 1"
    and p: "maxPressure ?f = 15.0 * exp (- 0.8) * 0.7"
    using generateFrameData_ten by simp_all
  have lo: "4.71 < maxPressure ?f"
    using exp_minus_four_fifths_lower by (simp add: p)
  have hi: "maxPressure ?f < 4.72"
    using exp_minus_four_fifths_upper by (simp add: p)
  from lo have pos: "0 < maxPressure ?f" by simp
  have nn: "0 \<le> d" using assms(3) by simp
  have cell: "pressureField ?f ! i ! j =
      (if 0 < d \<and> d \<le> 8 then maxPressure ?f * exp (- (d / 16)) * (1 - d / 16) else 0)"
    using assms pos by (simp add: generateFrameData_pressure_nth t pressureCell_at_one)
  have far: "8 < d \<longrightarrow> pressureField ?f ! i ! j = 0"
    by (simp add: cell)
  have centre: "d = 0 \<longrightarrow> pressureField ?f ! i ! j = 0"
    by (simp add: cell)
  have near: "0 < d \<and> d \<le> 8 \<longrightarrow>
      pressureField ?f ! i ! j = maxPressure ?f * exp (- (d / 16)) * (1 - d / 16) \<and>
      0 < pressureField ?f ! i ! j"
    using inside_front_positive [OF _ _ pos, of d] by (simp add: cell)
  have iff: "(pressureField ?f ! i ! j \<noteq> 0) = (0 < d \<and> d \<le> 8)"
    using near by (auto simp add: cell)
  from t p lo hi far centre near iff show ?thesis by simp
qed

text \<open>
  Claim C5, witness: the corner cell \<open>(0, 0)\<close> and the cell \<open>(25, 34)\<close>, nine units from
  the centre, lie beyond the front and hold 0; the cell \<open>(25, 33)\<close>, exactly eight units
  from the centre, lies on the front and holds \<open>maxPressure * exp (- 8 / 16) * (1 - 8 / 16)\<close>,
  which is positive; the cell \<open>(26, 25)\<close>, one unit from the centre, is positive.
\<close>

theorem frame_at_one_second_witness:
  "pressureField (generateFrameData [] 10) ! 0 ! 0 = 0 \<and>
   pressureField (generateFrameData [] 10) ! 25 ! 34 = 0 \<and>
   0 < pressureField (generateFrameData [] 10) ! 25 ! 33 \<and>
   pressureField (generateFrameData [] 10) ! 25 ! 33 =
     maxPressure (generateFrameData [] 10) * exp (- (8 / 16)) * (1 - 8 / 16) \<and>
   0 < pressureField (generateFrameData [] 10) ! 26 ! 25"
proof -
  have a: "(8::real) < sqrt ((real 0 - 25)\<^sup>2 + (real 0 - 25)\<^sup>2)"
    by (rule real_less_rsqrt) simp
  have b: "(8::real) < sqrt ((real 25 - 25)\<^sup>2 + (real 34 - 25)\<^sup>2)"
    by (rule real_less_rsqrt) simp
  have c: "(8::real) = sqrt ((real 25 - 25)\<^sup>2 + (real 33 - 25)\<^sup>2)"
    by (simp add: sqrt_64)
  have d: "(1::real) = sqrt ((real 26 - 25)\<^sup>2 + (real 25 - 25)\<^sup>2)"
    by simp
  have "pressureField (generateFrameData [] 10) ! 0 ! 0 = 0"
    using a frame_at_one_second [of 0 0, OF _ _ refl] by simp
  moreover have "pressureField (generateFrameData [] 10) ! 25 ! 34 = 0"
    using b frame_at_one_second [of 25 34, OF _ _ refl] by simp
  moreover have "pressureField (generateFrameData [] 10) ! 25 ! 33 =
       maxPressure (generateFrameData [] 10) * exp (- (8 / 16)) * (1 - 8 / 16) \<and>
     0 < pressureField (generateFrameData [] 10) ! 25 ! 33"
    using frame_at_one_second [of 25 33 8, OF _ _ c] by linarith
  moreover have "0 < pressureField (generateFrameData [] 10) ! 26 ! 25"
    using frame_at_one_second [of 26 25 1, OF _ _ d] by linarith
  ultimately show ?thesis by blast
qed

subsection \<open>Non-negative values\<close>

text \<open>
  Claim C7. When no external samples are supplied, or every supplied sample has a
  non-negative pressure and velocity, every generated frame has \<open>maxPressure \<ge> 0\<close> and
  \<open>maxVelocity \<ge> 0\<close>, and every cell of its pressure field is non-negative. This holds
  for every frame index, hence in particular for every time \<open>t \<ge> 0\<close>.
\<close>

theorem frame_values_nonneg:
  assumes "\<forall>s \<in> set frames. 0 \<le> pressure s \<and> 0 \<le> velocity s"
    and "i < 50" and "j < 50"
  shows "0 \<le> maxPressure (generateFrameData frames frameIndex) \<and>
         0 \<le> maxVelocity (generateFrameData frames frameIndex) \<and>
         0 \<le> pressureField (generateFrameData frames frameIndex) ! i ! j"
proof -
  let ?fr = "frameOrDefault frames frameIndex"
  from assms(1) have fr: "0 \<le> pressure ?fr" "0 \<le> velocity ?fr"
    using frameOrDefault_nonneg by blast+
  have "0 \<le> maxPressure (generateFrameData frames frameIndex)"
    using fr(1) by (simp add: generateFrameData_def Let_def maxPressureOf_nonneg)
  moreover have "0 \<le> maxVelocity (generateFrameData frames frameIndex)"
    using fr(2) by (simp add: generateFrameData_def Let_def maxVelocityOf_nonneg)
  moreover have "0 \<le> pressureField (generateFrameData frames frameIndex) ! i ! j"
    using assms(2,3) by (simp add: generateFrameData_pressure_nth pressureCell_nonneg)
  ultimately show ?thesis by simp
qed

text \<open>
  Claim C7, witness: one supplied sample with pressure 0.5 and velocity 0.2, frame 0,
  cell \<open>(3, 4)\<close>.
\<close>

theorem frame_values_nonneg_witness:
  "0 \<le> pressure \<lparr>frame_sample.time = 1, pressure = 1 / 2, velocity = 1 / 5, temperature = 300\<rparr> \<and>
   0 \<le> velocity \<lparr>frame_sample.time = 1, pressure = 1 / 2, velocity = 1 / 5, temperature = 300\<rparr> \<and>
   (3::nat) < 50 \<and> (4::nat) < 50 \<and>
   0 \<le> maxPressure (generateFrameData
     [\<lparr>frame_sample.time = 1, pressure = 1 / 2, velocity = 1 / 5, temperature = 300\<rparr>] 0) \<and>
   0 \<le> maxVelocity (generateFrameData
     [\<lparr>frame_sample.time = 1, pressure = 1 / 2, velocity = 1 / 5, temperature = 300\<rparr>] 0) \<and>
   0 \<le> pressureField (generateFrameData
     [\<lparr>frame_sample.time = 1, pressure = 1 / 2, velocity = 1 / 5, temperature = 300\<rparr>] 0) ! 3 ! 4"
  using frame_values_nonneg [of
      "[\<lparr>frame_sample.time = 1, pressure = 1 / 2, velocity = 1 / 5, temperature = 300\<rparr>]" 3 4 0]
  by simp

subsection \<open>Playback tick\<close>

text \<open>
  Claim C8. While playing, one tick moves the current frame index to
  \<open>(currentFrame + 1) mod totalFrames\<close> and leaves \<open>totalFrames\<close> alone: for every current
  index in \<open>[0, totalFrames)\<close> the tick returns a state, and its index is again in
  \<open>[0, totalFrames)\<close>.
\<close>

theorem tick_wraps:
  assumes "isPlaying st" and "0 \<le> currentFrame st" and "currentFrame st < totalFrames st"
  shows "map_option currentFrame (runAnimation frames st) =
           Some ((currentFrame st + 1) mod totalFrames st) \<and>
         map_option totalFrames (runAnimation frames st) = Some (totalFrames st) \<and>
         0 \<le> (currentFrame st + 1) mod totalFrames st \<and>
         (currentFrame st + 1) mod totalFrames st < totalFrames st"
proof -
  from assms have pos: "0 < totalFrames st" and nn: "0 \<le> currentFrame st + 1" by simp_all
  then have "jsRem (currentFrame st + 1) (totalFrames st) =
      Some ((currentFrame st + 1) mod totalFrames st)"
    by (simp add: jsRem_nonneg)
  with assms(1) pos show ?thesis by (simp add: runAnimation_def)
qed

text \<open>
  Claim C8, witness: one tick from frame 249 of a 250-frame sequence yields frame 0.
\<close>

theorem tick_wraps_witness:
  "map_option currentFrame
     (runAnimation [] \<lparr>isPlaying = True, currentFrame = 249, totalFrames = 250,
        simulationData = None, playbackSpeed = 1\<rparr>) = Some 0"
  using tick_wraps [of "\<lparr>isPlaying = True, currentFrame = 249, totalFrames = 250,
        simulationData = None, playbackSpeed = 1\<rparr>" "[]"]
  by simp

subsection \<open>Seeking\<close>

text \<open>
  Claim C2, as stated, fails: \<^verbatim>\<open>handleFrameSeek\<close> stores the index it is given. On a
  250-frame sequence, seeking to \<open>- 5\<close> leaves the current frame at \<open>- 5\<close>, below 0, and
  seeking to 9999 leaves it at 9999, not below \<open>totalFrames\<close>.
\<close>

theorem seek_unclamped:
  "totalFrames (handleFrameSeek [] (initialPlayback []) (- 5)) = 250 \<and>
   currentFrame (handleFrameSeek [] (initialPlayback []) (- 5)) = - 5 \<and>
   currentFrame (handleFrameSeek [] (initialPlayback []) (- 5)) < 0 \<and>
   currentFrame (handleFrameSeek [] (initialPlayback []) 9999) = 9999 \<and>
   totalFrames (handleFrameSeek [] (initialPlayback []) 9999)
     \<le> currentFrame (handleFrameSeek [] (initialPlayback []) 9999)"
  by (simp add: handleFrameSeek_def initialPlayback_def)

text \<open>
  Claim C2, amended. The clamping is done by the controls that call the seek operation,
  not by the operation: \<^verbatim>\<open>handleFrameSeek\<close> sets the current frame to its argument and
  leaves the play state and \<open>totalFrames\<close> alone, while from every current index in
  \<open>[0, totalFrames)\<close> the skip-back control seeks to \<open>max 0 (currentFrame - 10)\<close> and the
  skip-forward control to \<open>min (totalFrames - 1) (currentFrame + 10)\<close>, both of which lie
  in \<open>[0, totalFrames)\<close>.
\<close>

theorem seek_controls_clamp:
  assumes "0 \<le> currentFrame st" and "currentFrame st < totalFrames st"
  shows "currentFrame (handleFrameSeek frames st k) = k \<and>
         isPlaying (handleFrameSeek frames st k) = isPlaying st \<and>
         totalFrames (handleFrameSeek frames st k) = totalFrames st \<and>
         currentFrame (skipBack frames st) = max 0 (currentFrame st - 10) \<and>
         0 \<le> currentFrame (skipBack frames st) \<and>
         currentFrame (skipBack frames st) < totalFrames st \<and>
         currentFrame (skipForward frames st) = min (totalFrames st - 1) (currentFrame st + 10) \<and>
         0 \<le> currentFrame (skipForward frames st) \<and>
         currentFrame (skipForward frames st) < totalFrames st"
  using assms by (simp add: handleFrameSeek_def skipBack_def skipForward_def)

text \<open>
  Claim C2, witness: at frame 5 of a 250-frame sequence skip-back yields frame 0 and
  skip-forward frame 15, while a direct seek to 9999 yields 9999.
\<close>

theorem seek_controls_clamp_witness:
  "currentFrame (skipBack [] ((initialPlayback [])\<lparr>currentFrame := 5\<rparr>)) = 0 \<and>
   currentFrame (skipForward [] ((initialPlayback [])\<lparr>currentFrame := 5\<rparr>)) = 15 \<and>
   currentFrame (handleFrameSeek [] ((initialPlayback [])\<lparr>currentFrame := 5\<rparr>) 9999) = 9999"
  using seek_controls_clamp [of "(initialPlayback [])\<lparr>currentFrame := 5\<rparr>" "[]" 9999]
  by (simp add: initialPlayback_def)

subsection \<open>Negative time\<close>

text \<open>
  Claim C6, as stated, fails: the waveform has no guard for a negative time. At
  \<open>t = - 1\<close> the analytic pressure exceeds 15, and at \<open>t = - 3\<close> the analytic velocity is
  positive; a supplied sample with such a time and no override makes these the frame's
  \<open>maxPressure\<close> and \<open>maxVelocity\<close>.
\<close>

theorem negative_time_not_zero:
  "15 < analyticPressure (- 1) \<and>
   15 < maxPressure (generateFrameData
          [\<lparr>frame_sample.time = - 1, pressure = 0, velocity = 0, temperature = 300\<rparr>] 0) \<and>
   0 < analyticVelocity (- 3) \<and>
   0 < maxVelocity (generateFrameData
          [\<lparr>frame_sample.time = - 3, pressure = 0, velocity = 0, temperature = 300\<rparr>] 0)"
proof -
  have p: "15 < analyticPressure (- 1)" by (rule analyticPressure_gt_15) simp
  have "0 < sin (- 3 * 1.5 :: real)" using sin_nine_halves_neg by simp
  then have v: "0 < analyticVelocity (- 3)" by (simp only: analyticVelocity_pos_iff)
  from p v show ?thesis
    by (simp add: generateFrameData_def Let_def frameOrDefault_def frameTime_def
        maxPressureOf_def maxVelocityOf_def)
qed

text \<open>
  Claim C6, amended. For every time \<open>t < 0\<close> neither waveform value is negative, but
  neither is forced to 0: the analytic pressure is \<open>15 * exp (- 0.8 t) * (1 - 0.3 t)\<close>,
  which is greater than 15, and the analytic velocity is
  \<open>350 * exp (- 0.5 t) * max 0 (sin (1.5 t))\<close>, which is positive exactly when
  \<open>sin (1.5 t)\<close> is.
\<close>

theorem negative_time_waveform:
  assumes "t < 0"
  shows "analyticPressure t = 15 * exp (- t * 0.8) * (1 - t * 0.3) \<and>
         15 < analyticPressure t \<and>
         analyticVelocity t = 350 * exp (- t * 0.5) * max 0 (sin (t * 1.5)) \<and>
         0 \<le> analyticVelocity t \<and>
         (0 < analyticVelocity t) = (0 < sin (t * 1.5))"
proof -
  have "0 \<le> analyticVelocity t" by (simp add: analyticVelocity_def)
  moreover have "analyticVelocity t = 350 * exp (- t * 0.5) * max 0 (sin (t * 1.5))"
    by (simp add: analyticVelocity_def)
  ultimately show ?thesis
    using assms analyticPressure_negative_time [of t] analyticPressure_gt_15 [of t]
      analyticVelocity_pos_iff [of t]
    by blast
qed

text \<open>Claim C6, witness: the time \<open>t = - 3\<close>, where both values are positive.\<close>

theorem negative_time_waveform_witness:
  "(- 3 :: real) < 0 \<and> 15 < analyticPressure (- 3) \<and> 0 < analyticVelocity (- 3)"
proof -
  have "0 < sin (- 3 * 1.5 :: real)" using sin_nine_halves_neg by simp
  then show ?thesis using negative_time_waveform [of "- 3"] by simp
qed

subsection \<open>External samples\<close>

text \<open>
  Claim C1 is not met by the code at a sample whose value is exactly 0. With one supplied
  sample at time 1 whose pressure and velocity are both 0, frame 0 does not get
  \<open>maxPressure = 0 * 15\<close> and \<open>maxVelocity = 0 * 350\<close>: both fall back to the analytic
  waveform, \<open>15.0 * exp (- 0.8) * 0.7\<close> and \<open>350.0 * exp (- 0.5) * sin 1.5\<close>, which are
  positive.
\<close>

theorem zero_sample_falls_back:
  "maxPressure (generateFrameData
      [\<lparr>frame_sample.time = 1, pressure = 0, velocity = 0, temperature = 300\<rparr>] 0)
     = 15.0 * exp (- 0.8) * 0.7 \<and>
   0 < maxPressure (generateFrameData
      [\<lparr>frame_sample.time = 1, pressure = 0, velocity = 0, temperature = 300\<rparr>] 0) \<and>
   maxVelocity (generateFrameData
      [\<lparr>frame_sample.time = 1, pressure = 0, velocity = 0, temperature = 300\<rparr>] 0)
     = 350.0 * exp (- 0.5) * sin 1.5 \<and>
   0 < maxVelocity (generateFrameData
      [\<lparr>frame_sample.time = 1, pressure = 0, velocity = 0, temperature = 300\<rparr>] 0)"
  using sin_three_halves_pos
  by (simp add: generateFrameData_def Let_def frameOrDefault_def frameTime_def
      maxPressureOf_def maxVelocityOf_def analyticPressure_def analyticVelocity_def max_def)

subsection \<open>TNT equivalence\<close>

text \<open>
  Claim C3 is not met by the code at the types other than TNT and C4: the factor 1.34
  is applied to every type that is not TNT. A mass of 300 of RDX counts as 402, and a
  mass of 1000 of PETN or ANFO as 1340, not as the mass itself.
\<close>

theorem non_TNT_types_scaled:
  "tntEquivalentOf 300 ''RDX'' = 402 \<and>
   tntEquivalentOf 1000 ''PETN'' = 1340 \<and>
   tntEquivalentOf 1000 ''ANFO'' = 1340 \<and>
   calculateBlastRadius 300 ''RDX'' = Some (100 * (402 / 1000) powr (1 / 3))"
  by (simp add: tntEquivalentOf_def calculateBlastRadius_def powOneThird_def)

subsection \<open>Explosive mass\<close>



end
